theory Spec2Isabelle
  imports Complex_Main "HOL-Library.Multiset"
begin

section \<open>Exceptions of the Python code\<close>

text \<open>
  Every exception the modelled code can raise is a value; a function that can raise returns
  \<open>py_error + 'a\<close> with \<open>Inl\<close> for the exception.
\<close>

datatype py_error =
    IndexError
  | ValueError
  | ZeroDivisionError
  | FileNotFoundError
  | AxisError

section \<open>lib.py: landmark\_coordinates\<close>

text \<open>
  A tensor is its shape together with its entries. Entries of floating-point tensors are
  idealised as real numbers (no rounding, finite inputs); the one place where IEEE
  arithmetic differs in kind from real arithmetic, division by zero, is kept: torch's
  elementwise division raises nothing and yields an infinity or NaN there.
\<close>

datatype tfloat = Fin real | PosInf | NegInf | NaN

definition tdiv :: "real \<Rightarrow> real \<Rightarrow> tfloat" where
  "tdiv a b =
     (if b \<noteq> 0 then Fin (a / b)
      else if 0 < a then PosInf
      else if a < 0 then NegInf
      else NaN)"

record 'a tensor4 =
  dim0 :: nat
  dim1 :: nat
  dim2 :: nat
  dim3 :: nat
  elem :: "nat \<Rightarrow> nat \<Rightarrow> nat \<Rightarrow> nat \<Rightarrow> 'a"

record 'a tensor2 =
  rows2 :: nat
  cols2 :: nat
  elem2 :: "nat \<Rightarrow> nat \<Rightarrow> 'a"

text \<open>
  \<^verbatim>\<open>torch.meshgrid(torch.arange(n), torch.arange(m))\<close> with the default \<open>ij\<close> indexing:
  two \<open>n \<times> m\<close> grids, the first holding the index along the first axis, the second the
  index along the second axis. The two \<^verbatim>\<open>unsqueeze(0)\<close> calls give shape \<open>(1, 1, n, m)\<close>.
\<close>

definition meshgrid_x :: "nat \<Rightarrow> nat \<Rightarrow> int tensor4" where
  "meshgrid_x n m = \<lparr>dim0 = 1, dim1 = 1, dim2 = n, dim3 = m, elem = (\<lambda>_ _ i j. int i)\<rparr>"

definition meshgrid_y :: "nat \<Rightarrow> nat \<Rightarrow> int tensor4" where
  "meshgrid_y n m = \<lparr>dim0 = 1, dim1 = 1, dim2 = n, dim3 = m, elem = (\<lambda>_ _ i j. int j)\<rparr>"

text \<open>\<^verbatim>\<open>grid * maps\<close>: the grid of shape \<open>(1, 1, H, W)\<close> is broadcast over batch and part.\<close>

definition grid_mul :: "int tensor4 \<Rightarrow> real tensor4 \<Rightarrow> real tensor4" where
  "grid_mul g t = t\<lparr>elem := (\<lambda>b p i j. of_int (elem g 0 0 i j) * elem t b p i j)\<rparr>"

text \<open>\<^verbatim>\<open>t.sum(3).sum(2)\<close>: sum over the last axis, then over the axis before it.\<close>

definition sum3_sum2 :: "real tensor4 \<Rightarrow> real tensor2" where
  "sum3_sum2 t =
     \<lparr>rows2 = dim0 t, cols2 = dim1 t,
      elem2 = (\<lambda>b p. sum_list (map (\<lambda>i. sum_list (map (\<lambda>j. elem t b p i j) [0..<dim3 t]))
                                    [0..<dim2 t]))\<rparr>"

text \<open>Elementwise \<^verbatim>\<open>/\<close> of two tensors of the same shape.\<close>

definition tensor_div :: "real tensor2 \<Rightarrow> real tensor2 \<Rightarrow> tfloat tensor2" where
  "tensor_div s t =
     \<lparr>rows2 = rows2 s, cols2 = cols2 s, elem2 = (\<lambda>b p. tdiv (elem2 s b p) (elem2 t b p))\<rparr>"

definition landmark_coordinates ::
  "real tensor4 \<Rightarrow> tfloat tensor2 \<times> tfloat tensor2 \<times> int tensor4 \<times> int tensor4" where
  "landmark_coordinates maps =
     (let grid_x = meshgrid_x (dim2 maps) (dim3 maps);
          grid_y = meshgrid_y (dim2 maps) (dim3 maps);
          map_sums = sum3_sum2 maps;
          maps_x = grid_mul grid_x maps;
          maps_y = grid_mul grid_y maps;
          loc_x = tensor_div (sum3_sum2 maps_x) map_sums;
          loc_y = tensor_div (sum3_sum2 maps_y) map_sums
      in (loc_x, loc_y, grid_x, grid_y))"

text \<open>The centroid of channel \<open>(b, p)\<close> as the pair the function returns for it.\<close>

definition centroid :: "real tensor4 \<Rightarrow> nat \<Rightarrow> nat \<Rightarrow> tfloat \<times> tfloat" where
  "centroid maps b p =
     (case landmark_coordinates maps of
        (loc_x, loc_y, _, _) \<Rightarrow> (elem2 loc_x b p, elem2 loc_y b p))"

text \<open>
  The quantities of the specification, for a batch indexed (batch, part, row, col): the
  total mass of a channel, and the weighted averages of the column and of the row
  coordinate.
\<close>

definition mass :: "real tensor4 \<Rightarrow> nat \<Rightarrow> nat \<Rightarrow> real" where
  "mass a b p = (\<Sum>i<dim2 a. \<Sum>j<dim3 a. elem a b p i j)"



text \<open>Channel \<open>(b, p)\<close> has no negative entry.\<close>

definition nonnegative :: "real tensor4 \<Rightarrow> nat \<Rightarrow> nat \<Rightarrow> bool" where
  "nonnegative a b p =
     list_all (\<lambda>i. list_all (\<lambda>j. 0 \<le> elem a b p i j) [0..<dim3 a]) [0..<dim2 a]"



text \<open>
  A batch of two channels on a \<open>2 \<times> 2\<close> grid: channel 0 is all zero, channel 1 has its
  whole mass on cell \<open>(1, 0)\<close>.
\<close>

definition empty_and_point :: "real tensor4" where
  "empty_and_point =
     \<lparr>dim0 = 1, dim1 = 2, dim2 = 2, dim3 = 2,
      elem = (\<lambda>b p i j. if p = 1 \<and> i = 1 \<and> j = 0 then 1 else 0)\<rparr>"

section \<open>lib.py: rigid\_transform\<close>

text \<open>
  \<^verbatim>\<open>visionF.affine\<close> belongs to torchvision, not to this repository: the model takes it
  as a parameter. One call is the image it is applied to and its arguments; the argument
  \<open>interpolation\<close> is \<open>None\<close> when the caller does not pass it. The library function
  may raise (it validates its arguments), so it returns a result.
\<close>

datatype interpolation_mode = NEAREST | BILINEAR

record affine_args =
  arg_angle :: int
  arg_translate :: "int list"
  arg_scale :: real
  arg_shear :: int
  arg_interpolation :: "interpolation_mode option"

type_synonym 'img affine_fn = "'img \<Rightarrow> affine_args \<Rightarrow> py_error + 'img"

text \<open>
  In the inverse branch the second call's argument \<^verbatim>\<open>1/scale\<close> is evaluated after the
  first call has returned; Python's division raises ZeroDivisionError for a zero scale.
\<close>

definition rigid_transform ::
  "'img affine_fn \<Rightarrow> 'img \<Rightarrow> int \<Rightarrow> int list \<Rightarrow> real \<Rightarrow> bool \<Rightarrow> py_error + 'img" where
  "rigid_transform affine img angle translate scale invert =
     (let shear = 0; bilinear = BILINEAR in
      if \<not> invert then
        affine img \<lparr>arg_angle = angle, arg_translate = translate, arg_scale = scale,
                    arg_shear = shear, arg_interpolation = Some bilinear\<rparr>
      else
        let translate = map uminus translate in
        case affine img \<lparr>arg_angle = 0, arg_translate = translate, arg_scale = 1,
                         arg_shear = shear, arg_interpolation = None\<rparr> of
          Inl e \<Rightarrow> Inl e
        | Inr img \<Rightarrow>
            if scale = 0 then Inl ZeroDivisionError
            else affine img \<lparr>arg_angle = - angle, arg_translate = [0, 0],
                              arg_scale = 1 / scale, arg_shear = shear,
                              arg_interpolation = None\<rparr>)"

text \<open>
  An instance of the library parameter that records the calls made: the image is the
  list of argument records applied so far, oldest first.
\<close>

definition recording_affine :: "(affine_args list) affine_fn" where
  "recording_affine applied args = Inr (applied @ [args])"

section \<open>datasets.py: WhaleDataset and WhaleTripletDataset\<close>

subsection \<open>Library operations the classes use\<close>

text \<open>Indexing a Python list or a numpy array with an integer; negative indices wrap once.\<close>

definition py_index :: "'a list \<Rightarrow> int \<Rightarrow> py_error + 'a" where
  "py_index xs i =
     (if 0 \<le> i \<and> i < int (length xs) then Inr (xs ! nat i)
      else if - int (length xs) \<le> i \<and> i < 0 then Inr (xs ! nat (int (length xs) + i))
      else Inl IndexError)"

text \<open>\<^verbatim>\<open>os.path.join(a, *p)\<close> on POSIX.\<close>

fun path_join :: "string \<Rightarrow> string list \<Rightarrow> string" where
  "path_join path [] = path"
| "path_join path (b # bs) =
     path_join
       (if b \<noteq> [] \<and> hd b = CHR ''/'' then b
        else if path = [] \<or> last path = CHR ''/'' then path @ b
        else path @ ''/'' @ b)
       bs"

text \<open>
  An array is its shape and its samples. The samples are kept symbolically, as the
  history of library operations that produced them: the classes never look at them.
\<close>

datatype samples =
    Decoded string
  | Flip samples nat
  | Resize samples "nat list"
  | Stack3 samples
  | Transpose samples "nat list"
  | Float32Div samples nat

record ndarray =
  shape :: "nat list"
  content :: samples

text \<open>
  The files: \<^verbatim>\<open>os.path.isfile\<close> and \<^verbatim>\<open>skimage.io.imread\<close>, which raises when it cannot
  read the path.
\<close>

record filesystem =
  isfile :: "string \<Rightarrow> bool"
  imread :: "string \<Rightarrow> py_error + ndarray"

text \<open>\<^verbatim>\<open>np.flip(im, axis)\<close>: the axis must exist; the shape is kept.\<close>

definition np_flip :: "ndarray \<Rightarrow> nat \<Rightarrow> py_error + ndarray" where
  "np_flip im axis =
     (if axis < length (shape im) then Inr (im\<lparr>content := Flip (content im) axis\<rparr>)
      else Inl AxisError)"

text \<open>
  \<^verbatim>\<open>skimage.transform.resize(im, (rows, cols))\<close>: the first two axes get the requested
  sizes, further axes keep theirs. A size that is not positive is rejected.
\<close>

definition resize :: "ndarray \<Rightarrow> int \<times> int \<Rightarrow> py_error + ndarray" where
  "resize im output_shape =
     (case output_shape of (r, c) \<Rightarrow>
        if r \<le> 0 \<or> c \<le> 0 then Inl ValueError
        else let s = [nat r, nat c] @ drop 2 (shape im)
             in Inr \<lparr>shape = s, content = Resize (content im) s\<rparr>)"

text \<open>\<^verbatim>\<open>np.stack((im,) * 3, axis=-1)\<close>: a new last axis of size 3.\<close>

definition np_stack3 :: "ndarray \<Rightarrow> ndarray" where
  "np_stack3 im = \<lparr>shape = shape im @ [3], content = Stack3 (content im)\<rparr>"

text \<open>\<^verbatim>\<open>np.transpose(im, axes=(2, 0, 1))\<close>: defined for three axes only.\<close>

definition np_transpose_201 :: "ndarray \<Rightarrow> py_error + ndarray" where
  "np_transpose_201 im =
     (case shape im of
        [s0, s1, s2] \<Rightarrow> Inr \<lparr>shape = [s2, s0, s1], content = Transpose (content im) [2, 0, 1]\<rparr>
      | _ \<Rightarrow> Inl ValueError)"

text \<open>\<^verbatim>\<open>np.float32(im) / 255\<close>: elementwise, the shape is kept.\<close>

definition float32_div :: "ndarray \<Rightarrow> nat \<Rightarrow> ndarray" where
  "float32_div im d = im\<lparr>content := Float32Div (content im) d\<rparr>"

text \<open>\<^verbatim>\<open>np.where(mask)[0]\<close> for the mask \<open>P\<close> applied elementwise: the positions, ascending.\<close>

definition np_where :: "('a \<Rightarrow> bool) \<Rightarrow> 'a list \<Rightarrow> nat list" where
  "np_where P xs = filter (\<lambda>j. P (xs ! j)) [0..<length xs]"

text \<open>
  \<^verbatim>\<open>np.random.randint(high)\<close> raises ValueError unless \<open>0 < high\<close>, and otherwise
  returns a value of \<open>{0, ..., high - 1}\<close>, uniformly distributed. The generator is an
  input of the model: \<open>draw\<close> is its raw output, any natural number, reduced to the range.
\<close>

definition randint :: "nat \<Rightarrow> nat \<Rightarrow> py_error + nat" where
  "randint draw high = (if high = 0 then Inl ValueError else Inr (draw mod high))"

text \<open>\<^verbatim>\<open>np.unique(column)\<close>: the distinct values, sorted.\<close>

definition np_unique :: "'l::linorder list \<Rightarrow> 'l list" where
  "np_unique xs = sort (remdups xs)"

text \<open>\<^verbatim>\<open>xs.index(x)\<close> for an \<open>x\<close> that occurs in \<open>xs\<close>: the first position of \<open>x\<close>.\<close>

fun list_index :: "'a list \<Rightarrow> 'a \<Rightarrow> nat" where
  "list_index [] x = 0"
| "list_index (y # ys) x = (if y = x then 0 else Suc (list_index ys x))"

text \<open>\<^verbatim>\<open>np.array(xs)[np.array(setid) == v]\<close>: the entries of \<open>xs\<close> where the mask holds.\<close>

definition mask_select :: "'a list \<Rightarrow> nat list \<Rightarrow> nat \<Rightarrow> 'a list" where
  "mask_select xs setid v = map fst (filter (\<lambda>(x, s). s = v) (zip xs setid))"

subsection \<open>WhaleDataset\<close>

record 'l whale_dataset =
  data_path :: string
  alt_data_path :: "string option"
  unique_labels :: "'l list"
  mode :: string
  labels :: "nat list"
  label_ids :: "'l list"
  names :: "string list"
  height :: int

text \<open>
  The constructor's loop over the rows of \<^verbatim>\<open>train.csv\<close> (columns Image and Id), with the
  five variables it updates.
\<close>

record 'l scan =
  scan_labels :: "nat list"
  scan_label_ids :: "'l list"
  scan_setid :: "nat list"
  scan_names :: "string list"
  unique_labels_seen :: "nat list"

definition scan_row :: "'l list \<Rightarrow> 'l scan \<Rightarrow> string \<times> 'l \<Rightarrow> 'l scan" where
  "scan_row uniq st row =
     (case row of (image_name, ident) \<Rightarrow>
        if ident \<in> set uniq then
          let k = list_index uniq ident
          in \<lparr>scan_labels = scan_labels st @ [k],
              scan_label_ids = scan_label_ids st @ [ident],
              scan_setid = scan_setid st @ [if unique_labels_seen st ! k = 0 then 2 else 1],
              scan_names = scan_names st @ [image_name],
              unique_labels_seen =
                (unique_labels_seen st)[k := unique_labels_seen st ! k + 1]\<rparr>
        else st)"

definition scan_rows :: "'l list \<Rightarrow> (string \<times> 'l) list \<Rightarrow> 'l scan" where
  "scan_rows uniq train_data =
     foldl (scan_row uniq)
       \<lparr>scan_labels = [], scan_label_ids = [], scan_setid = [], scan_names = [],
        unique_labels_seen = replicate (length uniq) 0\<rparr>
       train_data"

text \<open>
  \<^verbatim>\<open>WhaleDataset.__init__\<close>, given the table \<^verbatim>\<open>pd.read_csv\<close> returned. For a mode other
  than \<open>train\<close>, \<open>val\<close> and \<open>no_set\<close> the constructor sets none of \<open>labels\<close>,
  \<open>label_ids\<close>, \<open>names\<close>; such an object is \<open>None\<close> here.
\<close>

definition whale_init ::
  "(string \<times> 'l::linorder) list \<Rightarrow> string \<Rightarrow> string \<Rightarrow> int \<Rightarrow> string option \<Rightarrow>
   'l whale_dataset option" where
  "whale_init train_data data_path' mode' height' alt_data_path' =
     (let uniq = np_unique (map snd train_data);
          st = scan_rows uniq train_data;
          obj = (\<lambda>v. \<lparr>data_path = data_path', alt_data_path = alt_data_path',
                       unique_labels = uniq, mode = mode',
                       labels = mask_select (scan_labels st) (scan_setid st) v,
                       label_ids = mask_select (scan_label_ids st) (scan_setid st) v,
                       names = mask_select (scan_names st) (scan_setid st) v,
                       height = height'\<rparr>)
      in if mode' = ''train'' then Some (obj 1)
         else if mode' = ''val'' then Some (obj 2)
         else if mode' = ''no_set'' then
           Some \<lparr>data_path = data_path', alt_data_path = alt_data_path',
                 unique_labels = uniq, mode = mode',
                 labels = scan_labels st, label_ids = scan_label_ids st,
                 names = scan_names st, height = height'\<rparr>
         else None)"

text \<open>\<^verbatim>\<open>WhaleDataset.__getitem__\<close>.\<close>

definition whale_getitem ::
  "filesystem \<Rightarrow> 'l whale_dataset \<Rightarrow> int \<Rightarrow> py_error + (ndarray \<times> nat)" where
  "whale_getitem fs self idx =
     (case py_index (names self) idx of
        Inl e \<Rightarrow> Inl e
      | Inr name \<Rightarrow>
     (case (case alt_data_path self of
              Some alt \<Rightarrow>
                if isfile fs (path_join alt [name]) then
                  (case imread fs (path_join alt [name]) of
                     Inl e \<Rightarrow> Inl e
                   | Inr im \<Rightarrow> np_flip im 2)
                else imread fs (path_join (data_path self) [''train'', name])
            | None \<Rightarrow> imread fs (path_join (data_path self) [''train'', name])) of
        Inl e \<Rightarrow> Inl e
      | Inr im \<Rightarrow>
     (case resize im (height self, height self * 2) of
        Inl e \<Rightarrow> Inl e
      | Inr im \<Rightarrow>
     (case py_index (labels self) idx of
        Inl e \<Rightarrow> Inl e
      | Inr label \<Rightarrow>
     (case np_transpose_201 (if length (shape im) = 2 then np_stack3 im else im) of
        Inl e \<Rightarrow> Inl e
      | Inr im \<Rightarrow> Inr (float32_div im 255, label))))))"

subsection \<open>WhaleTripletDataset\<close>

record 'l triplet_dataset =
  orig_dataset :: "'l whale_dataset"
  height_list :: "int list"

text \<open>The assignment \<^verbatim>\<open>self.orig_dataset.height = h\<close>.\<close>

definition set_height :: "'l triplet_dataset \<Rightarrow> int \<Rightarrow> 'l triplet_dataset" where
  "set_height self h = self\<lparr>orig_dataset := (orig_dataset self)\<lparr>height := h\<rparr>\<rparr>"

text \<open>
  \<^verbatim>\<open>WhaleTripletDataset.__getitem__\<close>. The call mutates the wrapped dataset, so the model
  returns the object as the call leaves it, also when the call raises. \<open>draw_pos\<close> and
  \<open>draw_neg\<close> are the generator's outputs for the two \<^verbatim>\<open>randint\<close> calls.
\<close>

definition triplet_getitem ::
  "filesystem \<Rightarrow> 'l triplet_dataset \<Rightarrow> int \<Rightarrow> nat \<Rightarrow> nat \<Rightarrow>
   (py_error + (ndarray \<times> ndarray \<times> ndarray \<times> nat \<times> nat)) \<times> 'l triplet_dataset" where
  "triplet_getitem fs self idx draw_pos draw_neg =
     (case py_index (height_list self) 0 of
        Inl e \<Rightarrow> (Inl e, self)
      | Inr h0 \<Rightarrow>
     (let self1 = set_height self h0 in
      case whale_getitem fs (orig_dataset self1) idx of
        Inl e \<Rightarrow> (Inl e, self1)
      | Inr (im, lab) \<Rightarrow>
     (let opts = np_where (\<lambda>l. l = lab) (labels (orig_dataset self1)) in
      case randint draw_pos (length opts) of
        Inl e \<Rightarrow> (Inl e, self1)
      | Inr k \<Rightarrow>
     (let positive_idx = opts ! k;
          opts = np_where (\<lambda>l. l \<noteq> lab) (labels (orig_dataset self1)) in
      case randint draw_neg (length opts) of
        Inl e \<Rightarrow> (Inl e, self1)
      | Inr k \<Rightarrow>
     (let negative_idx = opts ! k in
      case py_index (height_list self1) 1 of
        Inl e \<Rightarrow> (Inl e, self1)
      | Inr h1 \<Rightarrow>
     (let self2 = set_height self1 h1 in
      case whale_getitem fs (orig_dataset self2) (int positive_idx) of
        Inl e \<Rightarrow> (Inl e, self2)
      | Inr (im_pos, _) \<Rightarrow>
     (case py_index (height_list self2) 2 of
        Inl e \<Rightarrow> (Inl e, self2)
      | Inr h2 \<Rightarrow>
     (let self3 = set_height self2 h2 in
      case whale_getitem fs (orig_dataset self3) (int negative_idx) of
        Inl e \<Rightarrow> (Inl e, self3)
      | Inr (im_neg, lab_neg) \<Rightarrow> (Inr (im, im_pos, im_neg, lab, lab_neg), self3)))))))))"

subsection \<open>The split of the label table\<close>

text \<open>
  The samples of a dataset, in order: label, Id and image name of each position. Row \<open>i\<close>
  of a column of Ids is a first occurrence when its Id occurs in no earlier row, and a
  later occurrence otherwise.
\<close>

definition samples :: "'l whale_dataset \<Rightarrow> (nat \<times> 'l \<times> string) list" where
  "samples ds = zip (labels ds) (zip (label_ids ds) (names ds))"

definition first_occurrence :: "'l list \<Rightarrow> nat \<Rightarrow> bool" where
  "first_occurrence ids i \<longleftrightarrow> i < length ids \<and> ids ! i \<notin> set (take i ids)"

definition later_occurrence :: "'l list \<Rightarrow> nat \<Rightarrow> bool" where
  "later_occurrence ids i \<longleftrightarrow> i < length ids \<and> ids ! i \<in> set (take i ids)"

text \<open>The set ids the loop assigns: 2 at the first row of each Id, 1 at the others.\<close>

definition setid_of :: "'l list \<Rightarrow> nat list" where
  "setid_of ids = map (\<lambda>i. if ids ! i \<in> set (take i ids) then 1 else 2) [0..<length ids]"

subsection \<open>A small dataset\<close>

text \<open>
  Up to five samples, none of them under an alternative path; every file decodes to a
  \<open>4 \<times> 6\<close> colour image. The label vector is a parameter, and there is one image
  name per label.
\<close>

definition example_fs :: filesystem where
  "example_fs =
     \<lparr>isfile = (\<lambda>_. False),
      imread = (\<lambda>path. Inr \<lparr>shape = [4, 6, 3], content = Decoded path\<rparr>)\<rparr>"

definition example_whale :: "nat list \<Rightarrow> string whale_dataset" where
  "example_whale ls =
     \<lparr>data_path = ''w'', alt_data_path = None, unique_labels = [], mode = ''no_set'',
      labels = ls, label_ids = [],
      names = take (length ls) [''a'', ''b'', ''c'', ''d'', ''e''], height = 256\<rparr>"

definition example_triplet :: "nat list \<Rightarrow> string triplet_dataset" where
  "example_triplet ls = \<lparr>orig_dataset = example_whale ls, height_list = [32, 64, 128]\<rparr>"

text \<open>What \<^verbatim>\<open>WhaleDataset.__getitem__\<close> makes of such a file at height \<open>h\<close>.\<close>

definition example_image :: "string \<Rightarrow> nat \<Rightarrow> ndarray" where
  "example_image path h =
     \<lparr>shape = [3, h, 2 * h],
      content = Float32Div (Transpose (Resize (Decoded path) [h, 2 * h, 3]) [2, 0, 1]) 255\<rparr>"

section \<open>Properties of landmark\_coordinates\<close>

subsection \<open>What the function computes\<close>

lemma nonnegative_iff:
  "nonnegative a b p \<longleftrightarrow> (\<forall>i<dim2 a. \<forall>j<dim3 a. 0 \<le> elem a b p i j)"
  by (auto simp: nonnegative_def list_all_iff)


lemma sum3_sum2_elem:
  "elem2 (sum3_sum2 t) b p = (\<Sum>i<dim2 t. \<Sum>j<dim3 t. elem t b p i j)"
  by (simp add: sum3_sum2_def interv_sum_list_conv_sum_set_nat atLeast0LessThan)

lemma centroid_eq:
  "centroid a b p =
     (tdiv (\<Sum>i<dim2 a. \<Sum>j<dim3 a. real i * elem a b p i j) (mass a b p),
      tdiv (\<Sum>i<dim2 a. \<Sum>j<dim3 a. real j * elem a b p i j) (mass a b p))"
  by (simp add: centroid_def landmark_coordinates_def Let_def tensor_div_def sum3_sum2_elem
      grid_mul_def meshgrid_x_def meshgrid_y_def mass_def)







lemma zero_mass_all_zero:
  assumes nonneg: "\<And>i j. i < dim2 a \<Longrightarrow> j < dim3 a \<Longrightarrow> 0 \<le> elem a b p i j"
    and z: "mass a b p = 0" and "i < dim2 a" "j < dim3 a"
  shows "elem a b p i j = 0"
proof -
  have inner: "0 \<le> (\<Sum>j<dim3 a. elem a b p i j)" if "i < dim2 a" for i
    using nonneg that by (intro sum_nonneg) auto
  have "\<forall>i\<in>{..<dim2 a}. (\<Sum>j<dim3 a. elem a b p i j) = 0"
    using sum_nonneg_eq_0_iff [of "{..<dim2 a}" "\<lambda>i. \<Sum>j<dim3 a. elem a b p i j"] z inner
    by (simp add: mass_def)
  then have "(\<Sum>j<dim3 a. elem a b p i j) = 0"
    using assms(3) by simp
  then have "\<forall>j\<in>{..<dim3 a}. elem a b p i j = 0"
    using sum_nonneg_eq_0_iff [of "{..<dim3 a}" "\<lambda>j. elem a b p i j"] nonneg assms(3)
    by simp
  then show ?thesis
    using assms(4) by simp
qed

lemma centroid_zero_mass_not_finite:
  assumes z: "mass a b p = 0"
  shows "\<forall>v. fst (centroid a b p) \<noteq> Fin v \<and> snd (centroid a b p) \<noteq> Fin v"
  using z by (simp add: centroid_eq tdiv_def)

lemma centroid_zero_mass_nan:
  assumes nonneg: "\<And>i j. i < dim2 a \<Longrightarrow> j < dim3 a \<Longrightarrow> 0 \<le> elem a b p i j"
    and z: "mass a b p = 0"
  shows "centroid a b p = (NaN, NaN)"
proof -
  have "elem a b p i j = 0" if "i < dim2 a" "j < dim3 a" for i j
    using zero_mass_all_zero [OF nonneg z that] .
  then have "(\<Sum>i<dim2 a. \<Sum>j<dim3 a. real i * elem a b p i j) = 0"
       "(\<Sum>i<dim2 a. \<Sum>j<dim3 a. real j * elem a b p i j) = 0"
    by simp_all
  then show ?thesis using z by (simp add: centroid_eq tdiv_def)
qed


subsection \<open>Claims on landmark\_coordinates\<close>




text \<open>
  C4 (as amended). When a channel \<open>(b, p)\<close> has total mass zero the call does not fail: it
  returns, and both coordinates of that channel are non-finite values of the division;
  for a nonnegative channel (then all its entries are zero) both are NaN.
\<close>

theorem landmark_coordinates_zero_mass_nan:
  "(mass a b p = 0 \<longrightarrow>
      (\<forall>v. fst (centroid a b p) \<noteq> Fin v \<and> snd (centroid a b p) \<noteq> Fin v)) \<and>
   (mass a b p = 0 \<and> nonnegative a b p \<longrightarrow> centroid a b p = (NaN, NaN))"
  using centroid_zero_mass_not_finite [of a b p] centroid_zero_mass_nan [of a b p]
  by (simp add: nonnegative_iff)

theorem landmark_coordinates_zero_mass_nan_witness:
  "mass empty_and_point 0 0 = 0 \<and>
   nonnegative empty_and_point 0 0 \<and>
   (\<forall>v. fst (centroid empty_and_point 0 0) \<noteq> Fin v \<and> snd (centroid empty_and_point 0 0) \<noteq> Fin v) \<and>
   centroid empty_and_point 0 0 = (NaN, NaN)"
proof -
  have m: "mass empty_and_point 0 0 = 0"
    by (simp add: mass_def empty_and_point_def)
  have n: "nonnegative empty_and_point 0 0"
    by (simp add: nonnegative_iff empty_and_point_def)
  show ?thesis
    using landmark_coordinates_zero_mass_nan [of empty_and_point 0 0] m n by blast
qed

text \<open>
  C4 as stated fails: on a batch whose channel \<open>(0, 0)\<close> has mass zero the call returns a
  result, NaN in that channel and the centroid \<open>(1, 0)\<close> in the other channel.
\<close>

theorem landmark_coordinates_zero_mass_counterexample:
  "mass empty_and_point 0 0 = 0 \<and>
   elem2 (fst (landmark_coordinates empty_and_point)) 0 0 = NaN \<and>
   elem2 (fst (snd (landmark_coordinates empty_and_point))) 0 0 = NaN \<and>
   elem2 (fst (landmark_coordinates empty_and_point)) 0 1 = Fin 1 \<and>
   elem2 (fst (snd (landmark_coordinates empty_and_point))) 0 1 = Fin 0"
proof -
  have m0: "mass empty_and_point 0 0 = 0"
    by (simp add: mass_def empty_and_point_def)
  have c0: "centroid empty_and_point 0 0 = (NaN, NaN)"
    by (simp add: centroid_eq mass_def tdiv_def empty_and_point_def)
  have c1: "centroid empty_and_point 0 1 = (Fin 1, Fin 0)"
    by (simp add: centroid_eq mass_def tdiv_def empty_and_point_def
        lessThan_nat_numeral lessThan_Suc)
  show ?thesis
    using m0 c0 c1 by (simp add: centroid_def split: prod.splits)
qed




section \<open>Properties of rigid\_transform\<close>

text \<open>
  C2. In inverse mode, for a nonzero scale, \<open>rigid_transform\<close> is the composition of two
  calls of the library's affine function: first with angle 0, translation \<open>-translate\<close>,
  scale 1 and shear 0, then, on the image the first call returned, with angle \<open>-angle\<close>,
  translation \<open>(0, 0)\<close>, scale \<open>1/scale\<close> and shear 0. Run on the recording instance of
  the library function, the calls made are exactly these two, in this order, and not
  the single call with all parameters inverted at once.
\<close>

theorem rigid_transform_invert_two_calls:
  "scale \<noteq> 0 \<longrightarrow>
     rigid_transform affine img angle translate scale True =
       (case affine img \<lparr>arg_angle = 0, arg_translate = map uminus translate, arg_scale = 1,
                         arg_shear = 0, arg_interpolation = None\<rparr> of
          Inl e \<Rightarrow> Inl e
        | Inr img1 \<Rightarrow> affine img1 \<lparr>arg_angle = - angle, arg_translate = [0, 0],
                                     arg_scale = 1 / scale, arg_shear = 0,
                                     arg_interpolation = None\<rparr>) \<and>
     rigid_transform recording_affine [] angle translate scale True =
       Inr [\<lparr>arg_angle = 0, arg_translate = map uminus translate, arg_scale = 1,
             arg_shear = 0, arg_interpolation = None\<rparr>,
            \<lparr>arg_angle = - angle, arg_translate = [0, 0], arg_scale = 1 / scale,
             arg_shear = 0, arg_interpolation = None\<rparr>] \<and>
     (\<forall>i. rigid_transform recording_affine [] angle translate scale True \<noteq>
       Inr [\<lparr>arg_angle = - angle, arg_translate = map uminus translate, arg_scale = 1 / scale,
             arg_shear = 0, arg_interpolation = i\<rparr>])"
  by (simp add: rigid_transform_def recording_affine_def split: sum.splits)

theorem rigid_transform_invert_two_calls_witness:
  "(2::real) \<noteq> 0 \<and>
   rigid_transform recording_affine [] 45 [10, -5] 2 True =
       Inr [\<lparr>arg_angle = 0, arg_translate = [-10, 5], arg_scale = 1,
             arg_shear = 0, arg_interpolation = None\<rparr>,
            \<lparr>arg_angle = - 45, arg_translate = [0, 0], arg_scale = 1 / 2,
             arg_shear = 0, arg_interpolation = None\<rparr>]"
  using rigid_transform_invert_two_calls [of 2 recording_affine "[]" 45 "[10, -5]"] by (simp add: recording_affine_def)

section \<open>Properties of the datasets\<close>

subsection \<open>Library operations\<close>

lemma randint_Inr: "randint d n = Inr k \<longleftrightarrow> 0 < n \<and> k = d mod n"
  by (auto simp: randint_def)

lemma randint_Inl: "randint d n = Inl e \<longleftrightarrow> n = 0 \<and> e = ValueError"
  by (auto simp: randint_def)


lemma py_index_Inr:
  assumes "py_index xs i = Inr v"
  shows "\<exists>a<length xs. v = xs ! a \<and> (i = int a \<or> i = int a - int (length xs))"
proof (cases "0 \<le> i")
  case True
  with assms show ?thesis
    by (intro exI [of _ "nat i"]) (auto simp: py_index_def split: if_splits)
next
  case False
  with assms show ?thesis
    by (intro exI [of _ "nat (int (length xs) + i)"]) (auto simp: py_index_def split: if_splits)
qed

lemma set_np_where: "set (np_where P xs) = {j. j < length xs \<and> P (xs ! j)}"
  by (auto simp: np_where_def)


lemma sorted_np_where: "sorted (np_where P xs)"
  by (simp add: np_where_def sorted_wrt_filter)



lemma resize_Inr:
  "resize im (r, c) = Inr im' \<Longrightarrow> 0 < r \<and> 0 < c \<and> shape im' = [nat r, nat c] @ drop 2 (shape im)"
  by (auto simp: resize_def Let_def split: if_splits)

lemma np_transpose_201_Inr:
  "np_transpose_201 im = Inr im' \<Longrightarrow> \<exists>s0 s1 s2. shape im = [s0, s1, s2] \<and> shape im' = [s2, s0, s1]"
  by (auto simp: np_transpose_201_def split: list.splits)

subsection \<open>WhaleDataset.\_\_getitem\_\_\<close>

lemma whale_getitem_Inr:
  assumes "whale_getitem fs ds idx = Inr (im, lab)"
  shows "0 < height ds"
    and "\<exists>c. shape im = [c, nat (height ds), 2 * nat (height ds)]"
    and "py_index (labels ds) idx = Inr lab"
proof -
  from assms obtain im1 im2 where r: "resize im1 (height ds, height ds * 2) = Inr im2"
    and l: "py_index (labels ds) idx = Inr lab"
    and t': "\<exists>im3. np_transpose_201 (if length (shape im2) = 2 then np_stack3 im2 else im2) = Inr im3 \<and> im = float32_div im3 255"
    by (auto simp: whale_getitem_def split: sum.splits)
  from resize_Inr [OF r] have h: "0 < height ds"
    and s2: "shape im2 = [nat (height ds), nat (height ds * 2)] @ drop 2 (shape im1)" by simp_all
  show "0 < height ds" by (rule h)
  show "py_index (labels ds) idx = Inr lab" by (rule l)
  from t' obtain im3 where t3: "np_transpose_201 (if length (shape im2) = 2 then np_stack3 im2 else im2) = Inr im3"
    and im: "im = float32_div im3 255" by blast
  from np_transpose_201_Inr [OF t3] obtain s0 s1 s2' where
    sh: "shape (if length (shape im2) = 2 then np_stack3 im2 else im2) = [s0, s1, s2']"
    and sh3: "shape im3 = [s2', s0, s1]" by blast
  have "s0 = nat (height ds) \<and> s1 = nat (height ds * 2)"
    using sh s2 by (auto simp: np_stack3_def split: if_splits)
  moreover have "nat (height ds * 2) = 2 * nat (height ds)"
    using h by (simp add: nat_mult_distrib)
  ultimately show "\<exists>c. shape im = [c, nat (height ds), 2 * nat (height ds)]"
    using sh3 im by (simp add: float32_div_def)
qed

subsection \<open>WhaleTripletDataset.\_\_getitem\_\_\<close>

lemma set_height_simps [simp]:
  "orig_dataset (set_height self h) = (orig_dataset self)\<lparr>height := h\<rparr>"
  "height_list (set_height self h) = height_list self"
  "set_height (set_height self h) h' = set_height self h'"
  by (simp_all add: set_height_def)

lemma triplet_getitem_Inr:
  assumes "triplet_getitem fs self idx dp dn = (Inr (im, im_pos, im_neg, lab, lab_neg), self')"
  shows "\<exists>h0 h1 h2 lp.
     py_index (height_list self) 0 = Inr h0 \<and>
     py_index (height_list self) 1 = Inr h1 \<and>
     py_index (height_list self) 2 = Inr h2 \<and>
     whale_getitem fs ((orig_dataset self)\<lparr>height := h0\<rparr>) idx = Inr (im, lab) \<and>
     np_where (\<lambda>l. l = lab) (labels (orig_dataset self)) \<noteq> [] \<and>
     np_where (\<lambda>l. l \<noteq> lab) (labels (orig_dataset self)) \<noteq> [] \<and>
     whale_getitem fs ((orig_dataset self)\<lparr>height := h1\<rparr>)
       (int (np_where (\<lambda>l. l = lab) (labels (orig_dataset self)) !
              (dp mod length (np_where (\<lambda>l. l = lab) (labels (orig_dataset self)))))) = Inr (im_pos, lp) \<and>
     whale_getitem fs ((orig_dataset self)\<lparr>height := h2\<rparr>)
       (int (np_where (\<lambda>l. l \<noteq> lab) (labels (orig_dataset self)) !
              (dn mod length (np_where (\<lambda>l. l \<noteq> lab) (labels (orig_dataset self)))))) = Inr (im_neg, lab_neg) \<and>
     self' = set_height self h2"
  using assms
  by (auto simp: triplet_getitem_def Let_def randint_def split: sum.splits prod.splits if_splits)


lemma np_where_single_label:
  assumes "list_all (\<lambda>l. l = c) ls" "py_index ls idx = Inr lab"
  shows "np_where (\<lambda>l. l \<noteq> lab) ls = []"
proof -
  from py_index_Inr [OF assms(2)] have "lab = c"
    using assms(1) by (auto simp: list_all_length)
  then have "set (np_where (\<lambda>l. l \<noteq> lab) ls) = {}"
    using assms(1) by (auto simp: set_np_where list_all_length)
  then show ?thesis by simp
qed

lemma triplet_single_label:
  assumes all: "list_all (\<lambda>l. l = c) (labels (orig_dataset self))"
  shows "\<exists>e. fst (triplet_getitem fs self idx dp dn) = Inl e"
proof (cases "fst (triplet_getitem fs self idx dp dn)")
  case (Inl e)
  then show ?thesis by blast
next
  case (Inr r)
  obtain im im_pos im_neg lab lab_neg where r: "r = (im, im_pos, im_neg, lab, lab_neg)"
    by (cases r) auto
  from Inr r have "triplet_getitem fs self idx dp dn = (Inr (im, im_pos, im_neg, lab, lab_neg), snd (triplet_getitem fs self idx dp dn))"
    by (metis prod.collapse)
  from triplet_getitem_Inr [OF this] obtain h0 where
    a: "whale_getitem fs ((orig_dataset self)\<lparr>height := h0\<rparr>) idx = Inr (im, lab)"
    and n: "np_where (\<lambda>l. l \<noteq> lab) (labels (orig_dataset self)) \<noteq> []" by blast
  from whale_getitem_Inr(3) [OF a] have "py_index (labels (orig_dataset self)) idx = Inr lab" by simp
  from np_where_single_label [OF all this] n show ?thesis by simp
qed

lemma triplet_single_label_value_error:
  assumes all: "list_all (\<lambda>l. l = c) (labels (orig_dataset self))"
    and h: "py_index (height_list self) 0 = Inr h0"
    and a: "whale_getitem fs ((orig_dataset self)\<lparr>height := h0\<rparr>) idx = Inr (im, lab)"
  shows "triplet_getitem fs self idx dp dn = (Inl ValueError, set_height self h0)"
proof -
  from whale_getitem_Inr(3) [OF a] have l: "py_index (labels (orig_dataset self)) idx = Inr lab" by simp
  have n: "np_where (\<lambda>l. l \<noteq> lab) (labels (orig_dataset self)) = []"
    by (rule np_where_single_label [OF all l])
  from py_index_Inr [OF l] have "np_where (\<lambda>l. l = lab) (labels (orig_dataset self)) \<noteq> []"
    using set_np_where [of "\<lambda>l. l = lab" "labels (orig_dataset self)"] by force
  then show ?thesis
    using h a n by (simp add: triplet_getitem_def Let_def randint_def)
qed

subsection \<open>The small dataset\<close>


lemma example_call_single_label:
  "triplet_getitem example_fs (example_triplet [7, 7, 7]) 0 1 4 =
     (Inl ValueError, set_height (example_triplet [7, 7, 7]) 32)"
  by code_simp

subsection \<open>Claims on WhaleTripletDataset.\_\_getitem\_\_\<close>



text \<open>
  C7. When every sample carries the same label, no sampling call returns a triplet:
  every call raises. If the anchor fetch itself succeeds, the exception is the
  ValueError of \<open>randint\<close> on the empty list of negative candidates, and the wrapped
  dataset is left with the anchor's height.
\<close>

theorem triplet_getitem_single_label_fails:
  "list_all (\<lambda>l. l = c) (labels (orig_dataset self)) \<longrightarrow>
     (\<exists>e. fst (triplet_getitem fs self idx draw_pos draw_neg) = Inl e) \<and>
     (\<forall>h0 im lab.
        py_index (height_list self) 0 = Inr h0 \<and>
        whale_getitem fs ((orig_dataset self)\<lparr>height := h0\<rparr>) idx = Inr (im, lab) \<longrightarrow>
        triplet_getitem fs self idx draw_pos draw_neg = (Inl ValueError, set_height self h0))"
  using triplet_single_label [of c self fs idx draw_pos draw_neg]
    triplet_single_label_value_error [of c self _ fs idx _ _ draw_pos draw_neg]
  by blast

theorem triplet_getitem_single_label_fails_witness:
  "list_all (\<lambda>l. l = 7) (labels (orig_dataset (example_triplet [7, 7, 7]))) \<and>
   py_index (height_list (example_triplet [7, 7, 7])) 0 = Inr 32 \<and>
   whale_getitem example_fs ((orig_dataset (example_triplet [7, 7, 7]))\<lparr>height := 32\<rparr>) 0 =
     Inr (example_image ''w/train/a'' 32, 7) \<and>
   (\<exists>e. fst (triplet_getitem example_fs (example_triplet [7, 7, 7]) 0 1 4) = Inl e) \<and>
   triplet_getitem example_fs (example_triplet [7, 7, 7]) 0 1 4 =
     (Inl ValueError, set_height (example_triplet [7, 7, 7]) 32)"
proof -
  have a: "list_all (\<lambda>l. l = 7) (labels (orig_dataset (example_triplet [7, 7, 7])))"
    by code_simp
  have b: "py_index (height_list (example_triplet [7, 7, 7])) 0 = Inr 32"
    by code_simp
  have c: "whale_getitem example_fs ((orig_dataset (example_triplet [7, 7, 7]))\<lparr>height := 32\<rparr>) 0 =
     Inr (example_image ''w/train/a'' 32, 7)"
    by code_simp
  show ?thesis
    using triplet_getitem_single_label_fails [of 7 "example_triplet [7, 7, 7]" example_fs 0 1 4] a b c by blast
qed





subsection \<open>The constructor's loop\<close>

lemma set_np_unique [simp]: "set (np_unique xs) = set xs"
  by (simp add: np_unique_def)

lemma distinct_np_unique [simp]: "distinct (np_unique xs)"
  by (simp add: np_unique_def)

lemma list_index_less: "x \<in> set xs \<Longrightarrow> list_index xs x < length xs"
  by (induction xs) auto

lemma nth_list_index: "x \<in> set xs \<Longrightarrow> xs ! list_index xs x = x"
  by (induction xs) auto

lemma list_index_inj:
  "x \<in> set xs \<Longrightarrow> y \<in> set xs \<Longrightarrow> list_index xs x = list_index xs y \<Longrightarrow> x = y"
  by (metis nth_list_index)

lemma setid_of_snoc:
  "setid_of (ids @ [x]) = setid_of ids @ [if x \<in> set ids then 1 else 2]"
  by (simp add: setid_of_def nth_append)

lemma length_setid_of [simp]: "length (setid_of ids) = length ids"
  by (simp add: setid_of_def)

lemma setid_of_nth:
  "i < length ids \<Longrightarrow> setid_of ids ! i = (if ids ! i \<in> set (take i ids) then 1 else 2)"
  by (simp add: setid_of_def)

lemma seen_update:
  assumes "distinct uniq" "x \<in> set uniq"
  shows "(map (count_list ids) uniq)[list_index uniq x := count_list ids x + 1]
         = map (count_list (ids @ [x])) uniq"
proof (rule nth_equalityI)
  show "length ((map (count_list ids) uniq)[list_index uniq x := count_list ids x + 1])
        = length (map (count_list (ids @ [x])) uniq)" by simp
next
  fix i assume "i < length ((map (count_list ids) uniq)[list_index uniq x := count_list ids x + 1])"
  then have i: "i < length uniq" by simp
  show "(map (count_list ids) uniq)[list_index uniq x := count_list ids x + 1] ! i
        = map (count_list (ids @ [x])) uniq ! i"
  proof (cases "i = list_index uniq x")
    case True
    then show ?thesis using i assms by (simp add: nth_list_index)
  next
    case False
    then have "uniq ! i \<noteq> x"
      using assms i by (metis list_index_less nth_eq_iff_index_eq nth_list_index)
    then show ?thesis using i False by simp
  qed
qed

lemma scan_rows_eq:
  assumes "distinct uniq" "snd ` set rows \<subseteq> set uniq"
  shows "scan_rows uniq rows =
     \<lparr>scan_labels = map (\<lambda>r. list_index uniq (snd r)) rows,
      scan_label_ids = map snd rows,
      scan_setid = setid_of (map snd rows),
      scan_names = map fst rows,
      unique_labels_seen = map (count_list (map snd rows)) uniq\<rparr>"
  using assms(2)
proof (induction rows rule: rev_induct)
  case Nil
  then show ?case by (simp add: scan_rows_def setid_of_def map_replicate_const)
next
  case (snoc r rows)
  obtain nm x where r: "r = (nm, x)" by (cases r)
  from snoc.prems r have x: "x \<in> set uniq" and sub: "snd ` set rows \<subseteq> set uniq" by auto
  have k: "list_index uniq x < length uniq" using x by (rule list_index_less)
  have seen0: "map (count_list (map snd rows)) uniq ! list_index uniq x = 0 \<longleftrightarrow> x \<notin> snd ` set rows"
    using k x by (simp add: nth_list_index count_list_0_iff)
  have "scan_rows uniq (rows @ [r]) = scan_row uniq (scan_rows uniq rows) r"
    by (simp add: scan_rows_def)
  also have "\<dots> = \<lparr>scan_labels = map (\<lambda>r. list_index uniq (snd r)) (rows @ [r]),
      scan_label_ids = map snd (rows @ [r]),
      scan_setid = setid_of (map snd (rows @ [r])),
      scan_names = map fst (rows @ [r]),
      unique_labels_seen = map (count_list (map snd (rows @ [r]))) uniq\<rparr>"
    using x k seen0 seen_update [OF assms(1) x, of "map snd rows"]
    by (simp add: snoc.IH [OF sub] scan_row_def r Let_def setid_of_snoc nth_list_index)
  finally show ?case .
qed

lemma mask_select_nths:
  "length xs = length ms \<Longrightarrow> mask_select xs ms v = nths xs {i. i < length ms \<and> ms ! i = v}"
proof (induction xs ms rule: list_induct2)
  case Nil
  then show ?case by (simp add: mask_select_def)
next
  case (Cons x xs m ms)
  have "{j. Suc j < length (m # ms) \<and> (m # ms) ! Suc j = v} = {i. i < length ms \<and> ms ! i = v}"
    by simp
  with Cons show ?case
    by (simp add: mask_select_def nths_Cons)
qed

lemma first_set: "{i. i < length (setid_of ids) \<and> setid_of ids ! i = 2} = {i. first_occurrence ids i}"
  by (auto simp: first_occurrence_def setid_of_nth split: if_splits)

lemma later_set: "{i. i < length (setid_of ids) \<and> setid_of ids ! i = 1} = {i. later_occurrence ids i}"
  by (auto simp: later_occurrence_def setid_of_nth split: if_splits)

lemma nths_first_snoc:
  "nths (ids @ [x]) {i. first_occurrence (ids @ [x]) i} =
     nths ids {i. first_occurrence ids i} @ (if x \<in> set ids then [] else [x])"
proof -
  have a: "nths ids {i. first_occurrence (ids @ [x]) i} = nths ids {i. first_occurrence ids i}"
    unfolding nths_def
    by (rule arg_cong [where f = "map fst"], rule filter_cong)
       (auto simp: first_occurrence_def nth_append in_set_zip)
  have c: "first_occurrence (ids @ [x]) (length ids) \<longleftrightarrow> x \<notin> set ids"
    by (simp add: first_occurrence_def)
  show ?thesis by (simp add: nths_append a c)
qed

lemma first_occurrences:
  "distinct (nths ids {i. first_occurrence ids i}) \<and>
   set (nths ids {i. first_occurrence ids i}) = set ids"
proof (induction ids rule: rev_induct)
  case Nil
  then show ?case by simp
next
  case (snoc x ids)
  then show ?case by (auto simp: nths_first_snoc)
qed

lemma mset_nths_partition:
  "(\<And>i. i < length xs \<Longrightarrow> i \<in> A \<longleftrightarrow> i \<notin> B) \<Longrightarrow> mset (nths xs A) + mset (nths xs B) = mset xs"
proof (induction xs arbitrary: A B)
  case Nil
  then show ?case by simp
next
  case (Cons x xs)
  have "mset (nths xs {j. Suc j \<in> A}) + mset (nths xs {j. Suc j \<in> B}) = mset xs"
    using Cons.prems by (intro Cons.IH) auto
  moreover have "0 \<in> A \<longleftrightarrow> 0 \<notin> B" using Cons.prems [of 0] by simp
  ultimately show ?case by (auto simp: nths_Cons)
qed

lemma zip_nths:
  "length xs = length ys \<Longrightarrow> zip (nths xs A) (nths ys A) = nths (zip xs ys) A"
proof (induction xs ys arbitrary: A rule: list_induct2)
  case Nil
  then show ?case by simp
next
  case (Cons x xs y ys)
  then show ?case by (simp add: nths_Cons)
qed

lemma scan_rows_np_unique:
  fixes train_data :: "(string \<times> 'l::linorder) list"
  shows "scan_rows (np_unique (map snd train_data)) train_data =
     \<lparr>scan_labels = map (list_index (np_unique (map snd train_data))) (map snd train_data),
      scan_label_ids = map snd train_data,
      scan_setid = setid_of (map snd train_data),
      scan_names = map fst train_data,
      unique_labels_seen = map (count_list (map snd train_data)) (np_unique (map snd train_data))\<rparr>"
  using scan_rows_eq [of "np_unique (map snd train_data)" train_data] by simp

lemma whale_init_no_set:
  fixes train_data :: "(string \<times> 'l::linorder) list"
  shows "whale_init train_data dp ''no_set'' h alt =
           Some \<lparr>data_path = dp, alt_data_path = alt,
                 unique_labels = np_unique (map snd train_data), mode = ''no_set'',
                 labels = map (list_index (np_unique (map snd train_data))) (map snd train_data),
                 label_ids = map snd train_data,
                 names = map fst train_data, height = h\<rparr>"
  unfolding whale_init_def Let_def scan_rows_np_unique by simp

lemma whale_init_val:
  fixes train_data :: "(string \<times> 'l::linorder) list"
  shows "whale_init train_data dp ''val'' h alt =
           Some \<lparr>data_path = dp, alt_data_path = alt,
                 unique_labels = np_unique (map snd train_data), mode = ''val'',
                 labels = nths (map (list_index (np_unique (map snd train_data))) (map snd train_data))
                            {i. first_occurrence (map snd train_data) i},
                 label_ids = nths (map snd train_data) {i. first_occurrence (map snd train_data) i},
                 names = nths (map fst train_data) {i. first_occurrence (map snd train_data) i},
                 height = h\<rparr>"
  unfolding whale_init_def Let_def scan_rows_np_unique
  using first_set [of "map snd train_data"] by (simp add: mask_select_nths del: map_map)

lemma whale_init_train:
  fixes train_data :: "(string \<times> 'l::linorder) list"
  shows "whale_init train_data dp ''train'' h alt =
           Some \<lparr>data_path = dp, alt_data_path = alt,
                 unique_labels = np_unique (map snd train_data), mode = ''train'',
                 labels = nths (map (list_index (np_unique (map snd train_data))) (map snd train_data))
                            {i. later_occurrence (map snd train_data) i},
                 label_ids = nths (map snd train_data) {i. later_occurrence (map snd train_data) i},
                 names = nths (map fst train_data) {i. later_occurrence (map snd train_data) i},
                 height = h\<rparr>"
  unfolding whale_init_def Let_def scan_rows_np_unique
  using later_set [of "map snd train_data"] by (simp add: mask_select_nths del: map_map)

text \<open>A table of five rows with two Ids: rows 0 and 1 are the first occurrences.\<close>

lemma whale_init_example:
  "whale_init [(''a'', 20::nat), (''b'', 10), (''c'', 20), (''d'', 20), (''e'', 10)]
       ''p'' ''val'' 256 None =
     Some \<lparr>data_path = ''p'', alt_data_path = None, unique_labels = [10, 20], mode = ''val'',
           labels = [1, 0], label_ids = [20, 10], names = [''a'', ''b''], height = 256\<rparr>"
  "whale_init [(''a'', 20::nat), (''b'', 10), (''c'', 20), (''d'', 20), (''e'', 10)]
       ''p'' ''train'' 256 None =
     Some \<lparr>data_path = ''p'', alt_data_path = None, unique_labels = [10, 20], mode = ''train'',
           labels = [1, 1, 0], label_ids = [20, 20, 10], names = [''c'', ''d'', ''e''],
           height = 256\<rparr>"
  by code_simp+

subsection \<open>Claim on WhaleDataset.\_\_init\_\_\<close>

text \<open>
  C10. For every label table the constructor succeeds in the modes \<open>val\<close>, \<open>train\<close> and
  \<open>no_set\<close>. The \<open>no_set\<close> dataset holds one sample per row, in row order. The \<open>val\<close>
  dataset holds exactly the samples at the first occurrences of the Ids, so one sample
  per distinct Id and per distinct label; the \<open>train\<close> dataset holds exactly the samples
  at the later occurrences; and the two together are the samples of \<open>no_set\<close>, each
  position in exactly one of them.
\<close>

theorem whale_init_val_train_partition:
  fixes train_data :: "(string \<times> 'l::linorder) list"
  shows "\<exists>val train full.
     whale_init train_data dp ''val'' h alt = Some val \<and>
     whale_init train_data dp ''train'' h alt = Some train \<and>
     whale_init train_data dp ''no_set'' h alt = Some full \<and>
     samples full =
       map (\<lambda>(name, ident). (list_index (np_unique (map snd train_data)) ident, ident, name))
         train_data \<and>
     samples val = nths (samples full) {i. first_occurrence (map snd train_data) i} \<and>
     samples train = nths (samples full) {i. later_occurrence (map snd train_data) i} \<and>
     distinct (label_ids val) \<and> set (label_ids val) = set (label_ids full) \<and>
     distinct (labels val) \<and> set (labels val) = set (labels full) \<and>
     mset (samples val) + mset (samples train) = mset (samples full)"
proof -
  let ?ids = "map snd train_data"
  let ?uniq = "np_unique ?ids"
  let ?F = "{i. first_occurrence ?ids i}"
  let ?L = "{i. later_occurrence ?ids i}"
  let ?full = "\<lparr>data_path = dp, alt_data_path = alt, unique_labels = ?uniq, mode = ''no_set'',
                 labels = map (list_index ?uniq) ?ids, label_ids = ?ids,
                 names = map fst train_data, height = h\<rparr>"
  let ?val = "\<lparr>data_path = dp, alt_data_path = alt, unique_labels = ?uniq, mode = ''val'',
                 labels = nths (map (list_index ?uniq) ?ids) ?F,
                 label_ids = nths ?ids ?F,
                 names = nths (map fst train_data) ?F, height = h\<rparr>"
  let ?train = "\<lparr>data_path = dp, alt_data_path = alt, unique_labels = ?uniq, mode = ''train'',
                 labels = nths (map (list_index ?uniq) ?ids) ?L,
                 label_ids = nths ?ids ?L,
                 names = nths (map fst train_data) ?L, height = h\<rparr>"
  have sf: "samples ?full =
       map (\<lambda>(name, ident). (list_index ?uniq ident, ident, name)) train_data"
    by (simp add: samples_def zip_map_map zip_same_conv_map split_def)
  have sv: "samples ?val = nths (samples ?full) ?F"
    by (simp add: samples_def zip_nths)
  have st: "samples ?train = nths (samples ?full) ?L"
    by (simp add: samples_def zip_nths)
  have d: "distinct (nths ?ids ?F)" and s: "set (nths ?ids ?F) = set ?ids"
    using first_occurrences [of ?ids] by simp_all
  have inj: "inj_on (list_index ?uniq) (set ?ids)"
    by (rule inj_onI) (rule list_index_inj [of _ ?uniq], simp_all)
  have lv: "labels ?val = map (list_index ?uniq) (nths ?ids ?F)"
    by (simp add: nths_map del: map_map)
  have dl: "distinct (labels ?val)"
    unfolding lv using d s inj by (simp add: distinct_map del: map_map)
  have sl: "set (labels ?val) = set (labels ?full)"
    unfolding lv using s by (simp del: map_map)
  have part: "mset (samples ?val) + mset (samples ?train) = mset (samples ?full)"
    unfolding sv st
    by (rule mset_nths_partition)
       (auto simp: first_occurrence_def later_occurrence_def samples_def)
  show ?thesis
    using whale_init_val [of train_data dp h alt] whale_init_train [of train_data dp h alt]
      whale_init_no_set [of train_data dp h alt] sf sv st d s dl sl part
    by (intro exI [of _ ?val] exI [of _ ?train] exI [of _ ?full]) (simp del: map_map)
qed

end
